theory Spec2Isabelle
  imports Main
begin

section \<open>Errors, results of a Go call, and the world the code runs in\<close>

text \<open>
  The functions of \<^verbatim>\<open>pkg/docker/container.go\<close>, \<^verbatim>\<open>pkg/walking/stop.go\<close> and
  \<^verbatim>\<open>pkg/walking/check.go\<close> are embedded as state-passing functions on a \<open>world\<close>:
  the Docker daemon behind the package-level client \<^verbatim>\<open>cli\<close>, the host terminal, the
  host filesystem, and a trace of every external call the code makes, in order.

  A Go \<^verbatim>\<open>error\<close> result is an \<open>error option\<close> (\<open>None\<close> is \<^verbatim>\<open>nil\<close>); a Go
  \<^verbatim>\<open>(T, error)\<close> result is \<open>error + T\<close>.  The error created by
  \<^verbatim>\<open>errors.New\<close> in \<^verbatim>\<open>ContainerExec\<close> is a constructor of its own: in Go it is a
  fresh value that no error of the Docker client or of \<^verbatim>\<open>pkg/term\<close> is equal to.
\<close>

datatype errno = ENOENT | EACCES | EIO

datatype error =
    DaemonError string
  | TermError string
  | PathError errno
  | errors_New string

text \<open>
  A call either returns to its caller, terminates the whole process (\<^verbatim>\<open>os.Exit\<close>),
  or never returns (\<^verbatim>\<open>io.Copy\<close> on a stream that is never closed).
\<close>

datatype 'a go = Returns 'a | Exits int | Blocks

record container =
  ID :: string
  Names :: "string list"
  State :: string
  Networks :: "string list"

text \<open>
  \<^verbatim>\<open>types.ExecConfig\<close> and \<^verbatim>\<open>types.ExecStartCheck\<close>, with the fields the code sets.
  \<open>ExecCmd\<close> is the field \<^verbatim>\<open>Cmd\<close> of \<^verbatim>\<open>ExecConfig\<close> and \<open>CheckTty\<close> the field
  \<^verbatim>\<open>Tty\<close> of \<^verbatim>\<open>ExecStartCheck\<close> (record fields share one name space).
\<close>

record ExecConfig =
  User :: string
  ExecCmd :: "string list"
  WorkingDir :: string
  AttachStdin :: bool
  AttachStdout :: bool
  AttachStderr :: bool
  Tty :: bool

record ExecStartCheck =
  CheckTty :: bool
  Detach :: bool

record ContainerExecArgs =
  Interactive :: bool
  Name :: string
  Cmd :: string
  WorkDir :: string
  AsRoot :: bool
  Skip :: bool
  Network :: bool

text \<open>
  One event per external call.  The identifier of an exec instance, an opaque string in
  the Docker API, is the index of the instance in the daemon's table.
\<close>

datatype event =
    CliContainerList
  | CliContainerInspect string
  | CliNetworkConnect string string
  | CliNetworkDisconnect string string
  | CliContainerExecCreate string ExecConfig
  | CliContainerExecAttach nat ExecStartCheck
  | CliContainerExecInspect nat
  | CliContainerExecResize nat nat nat
  | CliContainerStop string nat
  | TermIsTerminal
  | TermMakeRaw
  | TermRestoreTerminal
  | TermGetWinsize
  | GoResizeIfChanged nat
  | GoCopyStdin nat
  | CopyStdout nat
  | HijackClose nat
  | OsStat string
  | OsExit int
  | Log string

text \<open>
  The world.  \<open>faults\<close> is the plan of failures of the fallible calls to the daemon and
  to the terminal: each such call takes the head of the plan and fails with that message
  when it is \<open>Some msg\<close>; the empty plan means that no further call fails for an outside
  reason.  \<open>run\<close> says how a command behaves in a container: \<open>Some c\<close> when its process
  exits with code \<open>c\<close>, \<open>None\<close> when it never exits.  \<open>stat\<close> is what \<^verbatim>\<open>os.Stat\<close>
  finds at a path.
\<close>

record FileInfo =
  IsDir :: bool

record world =
  containers :: "container list"
  execs :: "(string \<times> ExecConfig) list"
  run :: "string \<Rightarrow> ExecConfig \<Rightarrow> int option"
  faults :: "string option list"
  stdin_terminal :: bool
  winsize :: "nat \<times> nat"
  stat :: "string \<Rightarrow> errno + FileInfo"
  trace :: "event list"

definition emit :: "event \<Rightarrow> world \<Rightarrow> world" where
  "emit e w = w\<lparr>trace := trace w @ [e]\<rparr>"

definition next_fault :: "world \<Rightarrow> string option \<times> world" where
  "next_fault w =
     (case faults w of
        [] \<Rightarrow> (None, w)
      | f # fs \<Rightarrow> (f, w\<lparr>faults := fs\<rparr>))"

text \<open>The events that a run from \<open>w\<close> to \<open>w'\<close> has added to the trace.\<close>

definition emitted :: "world \<Rightarrow> world \<Rightarrow> event list" where
  "emitted w w' = drop (length (trace w)) (trace w')"

section \<open>The Docker client\<close>

text \<open>Constants of \<^verbatim>\<open>container.go\<close>; the stop timeout is in milliseconds.\<close>

definition ContainerStopTimeout :: nat where
  "ContainerStopTimeout = 10"

definition ContainerStateRunning :: string where
  "ContainerStateRunning = ''running''"

definition ContainerStateExited :: string where
  "ContainerStateExited = ''exited''"

text \<open>
  The daemon resolves a container by name: the names of a listing carry a leading
  separator.
\<close>

definition has_name :: "string \<Rightarrow> container \<Rightarrow> bool" where
  "has_name name c = (CHR ''/'' # name \<in> set (Names c))"

definition cli_ContainerList :: "world \<Rightarrow> (error + container list) \<times> world" where
  "cli_ContainerList w =
     (case next_fault (emit CliContainerList w) of
        (Some msg, w') \<Rightarrow> (Inl (DaemonError msg), w')
      | (None, w') \<Rightarrow> (Inr (containers w'), w'))"

definition find_container :: "string \<Rightarrow> world \<Rightarrow> container option" where
  "find_container name w = find (has_name name) (containers w)"

definition no_such_container :: error where
  "no_such_container = DaemonError ''No such container''"

definition no_such_exec :: error where
  "no_such_exec = DaemonError ''No such exec instance''"

definition cli_ContainerInspect :: "string \<Rightarrow> world \<Rightarrow> (error + container) \<times> world" where
  "cli_ContainerInspect name w =
     (case next_fault (emit (CliContainerInspect name) w) of
        (Some msg, w') \<Rightarrow> (Inl (DaemonError msg), w')
      | (None, w') \<Rightarrow>
          (case find_container name w' of
             None \<Rightarrow> (Inl no_such_container, w')
           | Some c \<Rightarrow> (Inr c, w')))"

text \<open>
  A request that changes a container changes the one that the daemon resolves the name
  to; a request that fails changes nothing.
\<close>

definition update_container :: "string \<Rightarrow> (container \<Rightarrow> container) \<Rightarrow> world \<Rightarrow> world" where
  "update_container name f w =
     w\<lparr>containers := map (\<lambda>c. if has_name name c then f c else c) (containers w)\<rparr>"

definition cli_NetworkConnect :: "string \<Rightarrow> string \<Rightarrow> world \<Rightarrow> error option \<times> world" where
  "cli_NetworkConnect network name w =
     (case next_fault (emit (CliNetworkConnect network name) w) of
        (Some msg, w') \<Rightarrow> (Some (DaemonError msg), w')
      | (None, w') \<Rightarrow>
          (case find_container name w' of
             None \<Rightarrow> (Some no_such_container, w')
           | Some c \<Rightarrow>
               (None, update_container name
                  (\<lambda>c. c\<lparr>Networks := List.insert network (Networks c)\<rparr>) w')))"

definition cli_NetworkDisconnect :: "string \<Rightarrow> string \<Rightarrow> world \<Rightarrow> error option \<times> world" where
  "cli_NetworkDisconnect network name w =
     (case next_fault (emit (CliNetworkDisconnect network name) w) of
        (Some msg, w') \<Rightarrow> (Some (DaemonError msg), w')
      | (None, w') \<Rightarrow>
          (case find_container name w' of
             None \<Rightarrow> (Some no_such_container, w')
           | Some c \<Rightarrow>
               (None, update_container name
                  (\<lambda>c. c\<lparr>Networks := removeAll network (Networks c)\<rparr>) w')))"

definition cli_ContainerStop :: "string \<Rightarrow> nat \<Rightarrow> world \<Rightarrow> error option \<times> world" where
  "cli_ContainerStop name timeout w =
     (case next_fault (emit (CliContainerStop name timeout) w) of
        (Some msg, w') \<Rightarrow> (Some (DaemonError msg), w')
      | (None, w') \<Rightarrow>
          (case find_container name w' of
             None \<Rightarrow> (Some no_such_container, w')
           | Some c \<Rightarrow>
               (None, update_container name (\<lambda>c. c\<lparr>State := ContainerStateExited\<rparr>) w')))"

text \<open>The daemon creates an exec instance only in a running container.\<close>

definition cli_ContainerExecCreate ::
  "string \<Rightarrow> ExecConfig \<Rightarrow> world \<Rightarrow> (error + nat) \<times> world" where
  "cli_ContainerExecCreate name config w =
     (case next_fault (emit (CliContainerExecCreate name config) w) of
        (Some msg, w') \<Rightarrow> (Inl (DaemonError msg), w')
      | (None, w') \<Rightarrow>
          (case find_container name w' of
             None \<Rightarrow> (Inl no_such_container, w')
           | Some c \<Rightarrow>
               (if State c = ContainerStateRunning
                then (Inr (length (execs w')), w'\<lparr>execs := execs w' @ [(name, config)]\<rparr>)
                else (Inl (DaemonError ''Container is not running''), w'))))"

text \<open>Attaching starts the command; the hijacked connection is named by the exec instance.\<close>

definition cli_ContainerExecAttach ::
  "nat \<Rightarrow> ExecStartCheck \<Rightarrow> world \<Rightarrow> (error + nat) \<times> world" where
  "cli_ContainerExecAttach execID check w =
     (case next_fault (emit (CliContainerExecAttach execID check) w) of
        (Some msg, w') \<Rightarrow> (Inl (DaemonError msg), w')
      | (None, w') \<Rightarrow>
          (if execID < length (execs w') then (Inr execID, w') else (Inl no_such_exec, w')))"

text \<open>
  The exit code of an exec instance: \<open>None\<close> for an unknown instance, otherwise what
  \<open>run\<close> says of its command (\<open>Some None\<close>: the process never exits).
\<close>

definition exec_exit :: "world \<Rightarrow> nat \<Rightarrow> int option option" where
  "exec_exit w execID =
     (if execID < length (execs w)
      then Some (run w (fst (execs w ! execID)) (snd (execs w ! execID)))
      else None)"

text \<open>
  \<^verbatim>\<open>ContainerExecInspect\<close> reports the exit code of the process, and 0 while it is
  still running.
\<close>

definition cli_ContainerExecInspect :: "nat \<Rightarrow> world \<Rightarrow> (error + int) \<times> world" where
  "cli_ContainerExecInspect execID w =
     (case next_fault (emit (CliContainerExecInspect execID) w) of
        (Some msg, w') \<Rightarrow> (Inl (DaemonError msg), w')
      | (None, w') \<Rightarrow>
          (case exec_exit w' execID of
             None \<Rightarrow> (Inl no_such_exec, w')
           | Some None \<Rightarrow> (Inr 0, w')
           | Some (Some code) \<Rightarrow> (Inr code, w')))"

definition cli_ContainerExecResize :: "nat \<Rightarrow> nat \<Rightarrow> nat \<Rightarrow> world \<Rightarrow> error option \<times> world" where
  "cli_ContainerExecResize execID height width w =
     (case next_fault (emit (CliContainerExecResize execID height width) w) of
        (Some msg, w') \<Rightarrow> (Some (DaemonError msg), w')
      | (None, w') \<Rightarrow>
          (if execID < length (execs w') then (None, w') else (Some no_such_exec, w')))"

section \<open>The host: terminal, streams, filesystem, process\<close>

definition term_IsTerminal :: "world \<Rightarrow> bool \<times> world" where
  "term_IsTerminal w = (stdin_terminal w, emit TermIsTerminal w)"

definition term_MakeRaw :: "world \<Rightarrow> (error + unit) \<times> world" where
  "term_MakeRaw w =
     (case next_fault (emit TermMakeRaw w) of
        (Some msg, w') \<Rightarrow> (Inl (TermError msg), w')
      | (None, w') \<Rightarrow> (Inr (), w'))"

definition term_RestoreTerminal :: "world \<Rightarrow> world" where
  "term_RestoreTerminal w = emit TermRestoreTerminal w"

definition term_GetWinsize :: "world \<Rightarrow> (error + nat \<times> nat) \<times> world" where
  "term_GetWinsize w =
     (case next_fault (emit TermGetWinsize w) of
        (Some msg, w') \<Rightarrow> (Inl (TermError msg), w')
      | (None, w') \<Rightarrow> (Inr (winsize w'), w'))"

text \<open>
  \<^verbatim>\<open>io.Copy(os.Stdout, hijack.Conn)\<close> returns when the remote process exits and the
  daemon closes the stream (or at once on a connection that names no exec instance);
  it never returns when the process never exits.  The result says whether it returned.
\<close>

definition io_Copy_stdout :: "nat \<Rightarrow> world \<Rightarrow> bool \<times> world" where
  "io_Copy_stdout conn w =
     (case exec_exit w conn of
        Some None \<Rightarrow> (False, emit (CopyStdout conn) w)
      | _ \<Rightarrow> (True, emit (CopyStdout conn) w))"

definition hijack_Close :: "nat \<Rightarrow> world \<Rightarrow> world" where
  "hijack_Close conn w = emit (HijackClose conn) w"

text \<open>The two goroutines of an interactive session: starting them is all the caller does.\<close>

definition go_resizeIfChanged :: "nat \<Rightarrow> world \<Rightarrow> world" where
  "go_resizeIfChanged execID w = emit (GoResizeIfChanged execID) w"

definition go_io_Copy_stdin :: "nat \<Rightarrow> world \<Rightarrow> world" where
  "go_io_Copy_stdin conn w = emit (GoCopyStdin conn) w"

text \<open>\<^verbatim>\<open>os.Stat\<close> returns the pair \<^verbatim>\<open>(info, err)\<close>, one of them \<^verbatim>\<open>nil\<close>.\<close>

definition os_Stat :: "string \<Rightarrow> world \<Rightarrow> (FileInfo option \<times> error option) \<times> world" where
  "os_Stat path w =
     (case stat w path of
        Inl e \<Rightarrow> ((None, Some (PathError e)), emit (OsStat path) w)
      | Inr info \<Rightarrow> ((Some info, None), emit (OsStat path) w))"

definition os_Exit :: "int \<Rightarrow> world \<Rightarrow> 'a go \<times> world" where
  "os_Exit code w = (Exits code, emit (OsExit code) w)"

text \<open>
  What follows a call in the caller runs only when the call returns: \<open>and_then m k\<close>
  is the call \<open>m\<close> followed by the rest \<open>k\<close> of the caller.
\<close>

definition and_then :: "'a go \<times> world \<Rightarrow> ('a \<Rightarrow> world \<Rightarrow> 'b go \<times> world) \<Rightarrow> 'b go \<times> world" where
  "and_then m k =
     (case m of
        (Returns x, w) \<Rightarrow> k x w
      | (Exits code, w) \<Rightarrow> (Exits code, w)
      | (Blocks, w) \<Rightarrow> (Blocks, w))"

section \<open>State Prober\<close>

text \<open>
  The two nested \<^verbatim>\<open>for\<close> loops of the probes, with their early \<^verbatim>\<open>return\<close>: the
  result is \<open>Some b\<close> when the loop returns \<open>b\<close> and \<open>None\<close> when it runs to its end.
\<close>

fun created_names :: "string list \<Rightarrow> string \<Rightarrow> bool option" where
  "created_names [] name = None"
| "created_names (n # ns) name =
     (if n = ''/'' @ name then Some True else created_names ns name)"

fun created_loop :: "container list \<Rightarrow> string \<Rightarrow> bool option" where
  "created_loop [] name = None"
| "created_loop (c # cs) name =
     (case created_names (Names c) name of
        Some b \<Rightarrow> Some b
      | None \<Rightarrow> created_loop cs name)"

definition IsContainerCreated :: "string \<Rightarrow> world \<Rightarrow> (error + bool) \<times> world" where
  "IsContainerCreated name w =
     (case cli_ContainerList w of
        (Inl err, w') \<Rightarrow> (Inl err, w')
      | (Inr list, w') \<Rightarrow>
          (case created_loop list name of
             Some b \<Rightarrow> (Inr b, w')
           | None \<Rightarrow> (Inr False, w')))"

fun started_names :: "string list \<Rightarrow> string \<Rightarrow> string \<Rightarrow> bool option" where
  "started_names [] st name = None"
| "started_names (n # ns) st name =
     (if n = ''/'' @ name then
        (if st = ContainerStateRunning then Some True else started_names ns st name)
      else started_names ns st name)"

fun started_loop :: "container list \<Rightarrow> string \<Rightarrow> bool option" where
  "started_loop [] name = None"
| "started_loop (c # cs) name =
     (case started_names (Names c) (State c) name of
        Some b \<Rightarrow> Some b
      | None \<Rightarrow> started_loop cs name)"

definition IsContainerStarted :: "string \<Rightarrow> world \<Rightarrow> (error + bool) \<times> world" where
  "IsContainerStarted name w =
     (case cli_ContainerList w of
        (Inl err, w') \<Rightarrow> (Inl err, w')
      | (Inr list, w') \<Rightarrow>
          (case started_loop list name of
             Some b \<Rightarrow> (Inr b, w')
           | None \<Rightarrow> (Inr False, w')))"

fun stopped_names :: "string list \<Rightarrow> string \<Rightarrow> string \<Rightarrow> bool option" where
  "stopped_names [] st name = None"
| "stopped_names (n # ns) st name =
     (if n = ''/'' @ name then
        (if st = ContainerStateRunning then Some False else stopped_names ns st name)
      else stopped_names ns st name)"

fun stopped_loop :: "container list \<Rightarrow> string \<Rightarrow> bool option" where
  "stopped_loop [] name = None"
| "stopped_loop (c # cs) name =
     (case stopped_names (Names c) (State c) name of
        Some b \<Rightarrow> Some b
      | None \<Rightarrow> stopped_loop cs name)"

definition IsContainerStopped :: "string \<Rightarrow> world \<Rightarrow> (error + bool) \<times> world" where
  "IsContainerStopped name w =
     (case cli_ContainerList w of
        (Inl err, w') \<Rightarrow> (Inl err, w')
      | (Inr list, w') \<Rightarrow>
          (case stopped_loop list name of
             Some b \<Rightarrow> (Inr b, w')
           | None \<Rightarrow> (Inr True, w')))"

section \<open>Lifecycle Driver\<close>

definition ContainerStop :: "string \<Rightarrow> world \<Rightarrow> error option \<times> world" where
  "ContainerStop name w =
     (let timeout = ContainerStopTimeout in
      cli_ContainerStop name timeout w)"

section \<open>Network Toggle\<close>

text \<open>
  The loop over the keys of \<^verbatim>\<open>inspect.NetworkSettings.Networks\<close> sets
  \<^verbatim>\<open>gotConnected\<close> when a key is the network; the order of the keys does not matter
  to it.
\<close>

definition ContainerNetwork :: "string \<Rightarrow> bool \<Rightarrow> world \<Rightarrow> error option \<times> world" where
  "ContainerNetwork name wantConnected w =
     (let network = ''bridge'' in
      case cli_ContainerInspect name w of
        (Inl err, w1) \<Rightarrow> (Some err, w1)
      | (Inr inspect, w1) \<Rightarrow>
          (let gotConnected =
                 fold (\<lambda>net got. if net = network then True else got) (Networks inspect) False
           in if wantConnected \<and> \<not> gotConnected then cli_NetworkConnect network name w1
              else if \<not> wantConnected \<and> gotConnected then cli_NetworkDisconnect network name w1
              else (None, w1)))"

section \<open>Exec Channel\<close>

definition ContainerExecResize :: "nat \<Rightarrow> world \<Rightarrow> error option \<times> world" where
  "ContainerExecResize execID w =
     (case term_GetWinsize w of
        (Inl err, w1) \<Rightarrow> (Some err, w1)
      | (Inr (height, width), w1) \<Rightarrow>
          (case cli_ContainerExecResize execID height width w1 of
             (Some err, w2) \<Rightarrow> (Some err, w2)
           | (None, w2) \<Rightarrow> (None, w2)))"

text \<open>
  A deferred call runs when the function returns, on every path that returns; it does
  not run when the function never returns or the process exits.
\<close>

definition deferred :: "(world \<Rightarrow> world) \<Rightarrow> 'a go \<times> world \<Rightarrow> 'a go \<times> world" where
  "deferred f m =
     (case m of
        (Returns x, w) \<Rightarrow> (Returns x, f w)
      | (Exits code, w) \<Rightarrow> (Exits code, w)
      | (Blocks, w) \<Rightarrow> (Blocks, w))"

text \<open>
  The configuration that \<^verbatim>\<open>ContainerExec\<close> builds (lines 205-228): the literal, then
  the two conditional updates.
\<close>

definition exec_config :: "ContainerExecArgs \<Rightarrow> ExecConfig" where
  "exec_config args =
     (let config = \<lparr>User = '''', ExecCmd = [''bash''], WorkingDir = WorkDir args,
                     AttachStdin = Interactive args, AttachStdout = True,
                     AttachStderr = True, Tty = True\<rparr>;
          config = (if AsRoot args then config\<lparr>User := ''root''\<rparr> else config);
          config = (if Cmd args \<noteq> ''''
                    then config\<lparr>ExecCmd := ExecCmd config @ [''-c'', Cmd args]\<rparr>
                    else config)
      in config)"

definition exec_check :: ExecStartCheck where
  "exec_check = \<lparr>CheckTty = True, Detach = False\<rparr>"

text \<open>
  The end of \<^verbatim>\<open>ContainerExec\<close> (lines 265-280), which every path that has attached
  reaches: copy the output until the stream ends, close, and in batch mode inspect the
  exit code.
\<close>

definition ContainerExec_wait ::
  "ContainerExecArgs \<Rightarrow> nat \<Rightarrow> nat \<Rightarrow> world \<Rightarrow> error option go \<times> world" where
  "ContainerExec_wait args response hijack w =
     (case io_Copy_stdout hijack w of
        (False, w1) \<Rightarrow> (Blocks, w1)
      | (True, w1) \<Rightarrow>
          (let w2 = hijack_Close hijack w1 in
           if \<not> Interactive args then
             (case cli_ContainerExecInspect response w2 of
                (Inl err, w3) \<Rightarrow> (Returns (Some err), w3)
              | (Inr ExitCode, w3) \<Rightarrow>
                  (if ExitCode \<noteq> 0
                   then (Returns (Some (errors_New ''command exited with non-zero status'')), w3)
                   else (Returns None, w3)))
           else (Returns None, w2)))"

definition ContainerExec :: "ContainerExecArgs \<Rightarrow> world \<Rightarrow> error option go \<times> world" where
  "ContainerExec args w =
     (let config = exec_config args; check = exec_check in
      if Skip args then (Returns None, w)
      else
        (case ContainerNetwork (Name args) (Network args) w of
           (Some err, w1) \<Rightarrow> (Returns (Some err), w1)
         | (None, w1) \<Rightarrow>
        (case cli_ContainerExecCreate (Name args) config w1 of
           (Inl err, w2) \<Rightarrow> (Returns (Some err), w2)
         | (Inr response, w2) \<Rightarrow>
        (case cli_ContainerExecAttach response check w2 of
           (Inl err, w3) \<Rightarrow> (Returns (Some err), w3)
         | (Inr hijack, w3) \<Rightarrow>
        (if Interactive args then
           (case term_IsTerminal w3 of
              (True, w4) \<Rightarrow>
                (case term_MakeRaw w4 of
                   (Inl err, w5) \<Rightarrow> (Returns (Some err), w5)
                 | (Inr oldState, w5) \<Rightarrow>
                     deferred term_RestoreTerminal
                       (case ContainerExecResize response w5 of
                          (Some err, w6) \<Rightarrow> (Returns (Some err), w6)
                        | (None, w6) \<Rightarrow>
                            ContainerExec_wait args response hijack
                              (go_io_Copy_stdin hijack (go_resizeIfChanged response w6))))
            | (False, w4) \<Rightarrow> ContainerExec_wait args response hijack w4)
         else ContainerExec_wait args response hijack w3)))))"

section \<open>Steps\<close>

text \<open>
  Modelled from the spec: the types \<^verbatim>\<open>naming.Naming\<close> and \<^verbatim>\<open>stepping.Step\<close> and
  the package \<^verbatim>\<open>log\<close> are not among the sources.  Of the naming object the steps read
  the container name and the archive directory of the package.  A step's \<^verbatim>\<open>error\<close>
  result carries one of three outcomes: \<^verbatim>\<open>nil\<close> (done), the distinguished skip signal,
  or a wrapped error (failure).
\<close>

record Naming =
  Container :: string
  ArchivePackageDir :: string

datatype outcome = Done | Skipped | Failed error

text \<open>
  Modelled from the spec: \<^verbatim>\<open>log.Info\<close> and \<^verbatim>\<open>log.Skip\<close> print a message and
  return nothing.
\<close>

definition log_Info :: "string \<Rightarrow> world \<Rightarrow> world" where
  "log_Info msg w = emit (Log msg) w"

definition log_Skip :: "world \<Rightarrow> world" where
  "log_Skip w = emit (Log ''skipped'') w"

text \<open>
  Modelled from the spec: \<^verbatim>\<open>log.DoneE\<close>, \<^verbatim>\<open>log.SkipE\<close> and \<^verbatim>\<open>log.FailE\<close> print
  the outcome and return it through the error channel: \<^verbatim>\<open>nil\<close>, the skip signal, the
  wrapped error.
\<close>

definition log_DoneE :: "world \<Rightarrow> outcome \<times> world" where
  "log_DoneE w = (Done, emit (Log ''done'') w)"

definition log_SkipE :: "world \<Rightarrow> outcome \<times> world" where
  "log_SkipE w = (Skipped, emit (Log ''skipped'') w)"

definition log_FailE :: "error \<Rightarrow> world \<Rightarrow> outcome \<times> world" where
  "log_FailE err w = (Failed err, emit (Log ''failed'') w)"

text \<open>
  \<^verbatim>\<open>walking.Stop\<close>.  The step calls the probe and the stop of the docker package on
  the container name of the naming object.
\<close>

definition Stop :: "Naming \<Rightarrow> world \<Rightarrow> outcome \<times> world" where
  "Stop name w =
     (let w0 = log_Info ''Stopping container'' w in
      case IsContainerStopped (Container name) w0 of
        (Inl err, w1) \<Rightarrow> log_FailE err w1
      | (Inr isContainerStopped, w1) \<Rightarrow>
          (if isContainerStopped then log_SkipE w1
           else
             (case ContainerStop (Container name) w1 of
                (Some err, w2) \<Rightarrow> log_FailE err w2
              | (None, w2) \<Rightarrow> log_DoneE w2)))"

text \<open>\<^verbatim>\<open>walking.Check\<close>.  The error of \<^verbatim>\<open>os.Stat\<close> is assigned to the blank identifier.\<close>

definition Check :: "Naming \<Rightarrow> world \<Rightarrow> outcome go \<times> world" where
  "Check name w =
     (let w0 = log_Info ''Checking archive'' w in
      case os_Stat (ArchivePackageDir name) w0 of
        ((info, _), w1) \<Rightarrow>
          (if info \<noteq> None then os_Exit 0 (log_Skip w1)
           else (case log_DoneE w1 of (out, w2) \<Rightarrow> (Returns out, w2))))"

section \<open>Counting calls, and a world to run the code in\<close>


text \<open>
  A daemon with a stopped container of an earlier build and the running container of the
  current one, attached to the bridge network; no call fails; the host's standard input
  is not a terminal; the command \<^verbatim>\<open>false\<close> exits with code 1 and every other
  command with code 0; one package is in the archive already, and one directory of the
  archive cannot be read.
\<close>

definition example_world :: world where
  "example_world =
     \<lparr>containers =
        [\<lparr>ID = ''1a'', Names = [''/deber_old''], State = ''exited'', Networks = []\<rparr>,
         \<lparr>ID = ''2b'', Names = [''/deber''], State = ''running'', Networks = [''bridge'']\<rparr>],
      execs = [],
      run = (\<lambda>name config.
               if ExecCmd config = [''bash'', ''-c'', ''false''] then Some 1 else Some 0),
      faults = [],
      stdin_terminal = False,
      winsize = (24, 80),
      stat = (\<lambda>path.
                if path = ''/archive/hello_1.0'' then Inr \<lparr>IsDir = True\<rparr>
                else if path = ''/archive/locked'' then Inl EACCES
                else Inl ENOENT),
      trace = []\<rparr>"

text \<open>
  The external calls that one invocation of \<^verbatim>\<open>ContainerExec\<close> with the arguments
  \<open>args\<close> can make, on a host whose standard input is a terminal or not (\<open>tty\<close>).
\<close>

fun exec_event :: "ContainerExecArgs \<Rightarrow> bool \<Rightarrow> event \<Rightarrow> bool" where
  "exec_event args tty (CliContainerInspect name) = (name = Name args)"
| "exec_event args tty (CliNetworkConnect network name) =
     (network = ''bridge'' \<and> name = Name args \<and> Network args)"
| "exec_event args tty (CliNetworkDisconnect network name) =
     (network = ''bridge'' \<and> name = Name args \<and> \<not> Network args)"
| "exec_event args tty (CliContainerExecCreate name config) =
     (name = Name args \<and> config = exec_config args)"
| "exec_event args tty (CliContainerExecAttach execID check) = (check = exec_check)"
| "exec_event args tty (CliContainerExecInspect execID) = (\<not> Interactive args)"
| "exec_event args tty (CliContainerExecResize execID height width) = (Interactive args \<and> tty)"
| "exec_event args tty TermIsTerminal = Interactive args"
| "exec_event args tty TermMakeRaw = (Interactive args \<and> tty)"
| "exec_event args tty TermRestoreTerminal = (Interactive args \<and> tty)"
| "exec_event args tty TermGetWinsize = (Interactive args \<and> tty)"
| "exec_event args tty (GoResizeIfChanged execID) = (Interactive args \<and> tty)"
| "exec_event args tty (GoCopyStdin conn) = (Interactive args \<and> tty)"
| "exec_event args tty (CopyStdout conn) = True"
| "exec_event args tty (HijackClose conn) = True"
| "exec_event args tty e = False"

text \<open>
  Arguments for a command in the running container of the example world, detached from
  the network as the packaging step wants it.
\<close>

definition example_args :: "bool \<Rightarrow> string \<Rightarrow> ContainerExecArgs" where
  "example_args interactive cmd =
     \<lparr>Interactive = interactive, Name = ''deber'', Cmd = cmd, WorkDir = ''/build/source'',
      AsRoot = False, Skip = False, Network = False\<rparr>"

definition example_naming :: "string \<Rightarrow> string \<Rightarrow> Naming" where
  "example_naming container dir = \<lparr>Container = container, ArchivePackageDir = dir\<rparr>"

section \<open>State Prober: running and stopped\<close>

lemma started_names_eq:
  "started_names ns st n =
     (if ''/'' @ n \<in> set ns \<and> st = ContainerStateRunning then Some True else None)"
  by (induction ns) auto

lemma stopped_names_eq:
  "stopped_names ns st n =
     (if ''/'' @ n \<in> set ns \<and> st = ContainerStateRunning then Some False else None)"
  by (induction ns) auto

lemma created_names_eq:
  "created_names ns n = (if ''/'' @ n \<in> set ns then Some True else None)"
  by (induction ns) auto

lemma started_loop_cases:
  "started_loop cs n = Some True \<or> started_loop cs n = None"
  by (induction cs) (auto simp: started_names_eq)

lemma stopped_loop_started_loop:
  "stopped_loop cs n = map_option Not (started_loop cs n)"
  by (induction cs) (auto simp: started_names_eq stopped_names_eq)

lemma started_loop_absent:
  "\<forall>c \<in> set cs. ''/'' @ n \<notin> set (Names c) \<Longrightarrow> started_loop cs n = None"
  by (induction cs) (auto simp: started_names_eq)

lemma created_loop_None:
  "created_loop cs n = None \<longleftrightarrow> (\<forall>c \<in> set cs. ''/'' @ n \<notin> set (Names c))"
  by (induction cs) (auto simp: created_names_eq)

lemma created_loop_cases:
  "created_loop cs n = Some True \<or> created_loop cs n = None"
  by (induction cs) (auto simp: created_names_eq)

text \<open>
  C1.  When the listing of the daemon succeeds and is the same for the probes: if
  \<^verbatim>\<open>IsContainerStarted\<close> returns true for a name then \<^verbatim>\<open>IsContainerStopped\<close> returns
  false for it; and if no container of the listing has the name (equivalently,
  \<^verbatim>\<open>IsContainerCreated\<close> returns false), then \<^verbatim>\<open>IsContainerStarted\<close> returns false
  and \<^verbatim>\<open>IsContainerStopped\<close> returns true: absent counts as stopped.
\<close>

theorem probes_running_excludes_stopped:
  assumes "cli_ContainerList w1 = (Inr list, w1')"
    and "cli_ContainerList w2 = (Inr list, w2')"
    and "cli_ContainerList w3 = (Inr list, w3')"
  shows "(fst (IsContainerStarted n w1) = Inr True \<longrightarrow> fst (IsContainerStopped n w2) = Inr False)
    \<and> ((\<forall>c \<in> set list. ''/'' @ n \<notin> set (Names c)) \<longrightarrow>
          fst (IsContainerStarted n w1) = Inr False \<and> fst (IsContainerStopped n w2) = Inr True)
    \<and> (fst (IsContainerCreated n w3) = Inr False \<longrightarrow>
          fst (IsContainerStarted n w1) = Inr False \<and> fst (IsContainerStopped n w2) = Inr True)"
proof -
  have absent: "started_loop list n = None" if "\<forall>c \<in> set list. ''/'' @ n \<notin> set (Names c)"
    using that by (rule started_loop_absent)
  have created: "\<forall>c \<in> set list. ''/'' @ n \<notin> set (Names c)"
    if "fst (IsContainerCreated n w3) = Inr False"
    using that assms(3) created_loop_cases [of list n]
    by (auto simp: IsContainerCreated_def created_loop_None split: option.splits)
  show ?thesis
    using assms(1,2) absent created started_loop_cases [of list n]
    by (auto simp: IsContainerStarted_def IsContainerStopped_def stopped_loop_started_loop
        split: option.splits)
qed

theorem probes_running_excludes_stopped_witness:
  "fst (IsContainerStarted ''deber'' example_world) = Inr True
   \<and> fst (IsContainerStopped ''deber'' example_world) = Inr False
   \<and> fst (IsContainerCreated ''ghost'' example_world) = Inr False
   \<and> fst (IsContainerStarted ''ghost'' example_world) = Inr False
   \<and> fst (IsContainerStopped ''ghost'' example_world) = Inr True"
proof -
  let ?w = example_world
  have l: "cli_ContainerList ?w = (Inr (containers ?w), emit CliContainerList ?w)"
    by (simp add: cli_ContainerList_def next_fault_def emit_def example_world_def)
  have started: "fst (IsContainerStarted ''deber'' ?w) = Inr True"
    by (simp add: IsContainerStarted_def l ContainerStateRunning_def)
      (simp add: example_world_def ContainerStateRunning_def)
  have created: "fst (IsContainerCreated ''ghost'' ?w) = Inr False"
    by (simp add: IsContainerCreated_def l) (simp add: example_world_def)
  from probes_running_excludes_stopped [OF l l l, of "''deber''"] started
  have "fst (IsContainerStopped ''deber'' ?w) = Inr False"
    by blast
  moreover from probes_running_excludes_stopped [OF l l l, of "''ghost''"] created
  have "fst (IsContainerStarted ''ghost'' ?w) = Inr False
      \<and> fst (IsContainerStopped ''ghost'' ?w) = Inr True"
    by blast
  ultimately show ?thesis
    using started created by simp
qed

section \<open>What each call adds to the trace, and what it leaves alone\<close>

lemma next_fault_frame:
  "next_fault w = (f, w') \<Longrightarrow>
   trace w' = trace w \<and> stdin_terminal w' = stdin_terminal w \<and> containers w' = containers w
   \<and> execs w' = execs w \<and> run w' = run w"
  by (auto simp: next_fault_def split: list.splits)

lemma cli_ContainerInspect_frame:
  "cli_ContainerInspect name w = (r, w') \<Longrightarrow>
   trace w' = trace w @ [CliContainerInspect name] \<and> stdin_terminal w' = stdin_terminal w
   \<and> containers w' = containers w \<and> execs w' = execs w \<and> run w' = run w"
  by (auto simp: cli_ContainerInspect_def emit_def dest!: next_fault_frame
      split: prod.splits option.splits)

lemma cli_NetworkConnect_frame:
  "cli_NetworkConnect network name w = (r, w') \<Longrightarrow>
   trace w' = trace w @ [CliNetworkConnect network name] \<and> stdin_terminal w' = stdin_terminal w
   \<and> execs w' = execs w \<and> run w' = run w"
  by (auto simp: cli_NetworkConnect_def emit_def update_container_def dest!: next_fault_frame
      split: prod.splits option.splits)

lemma cli_NetworkDisconnect_frame:
  "cli_NetworkDisconnect network name w = (r, w') \<Longrightarrow>
   trace w' = trace w @ [CliNetworkDisconnect network name] \<and> stdin_terminal w' = stdin_terminal w
   \<and> execs w' = execs w \<and> run w' = run w"
  by (auto simp: cli_NetworkDisconnect_def emit_def update_container_def dest!: next_fault_frame
      split: prod.splits option.splits)

lemma cli_ContainerStop_frame:
  "cli_ContainerStop name t w = (r, w') \<Longrightarrow>
   trace w' = trace w @ [CliContainerStop name t]"
  by (auto simp: cli_ContainerStop_def emit_def update_container_def dest!: next_fault_frame
      split: prod.splits option.splits)

lemma cli_ContainerList_frame:
  "cli_ContainerList w = (r, w') \<Longrightarrow>
   trace w' = trace w @ [CliContainerList] \<and> containers w' = containers w"
  by (auto simp: cli_ContainerList_def emit_def dest!: next_fault_frame
      split: prod.splits option.splits)

lemma cli_ContainerExecCreate_frame:
  "cli_ContainerExecCreate name config w = (r, w') \<Longrightarrow>
   trace w' = trace w @ [CliContainerExecCreate name config] \<and> stdin_terminal w' = stdin_terminal w"
  by (auto simp: cli_ContainerExecCreate_def emit_def dest!: next_fault_frame
      split: prod.splits option.splits if_splits)

lemma cli_ContainerExecAttach_frame:
  "cli_ContainerExecAttach execID check w = (r, w') \<Longrightarrow>
   trace w' = trace w @ [CliContainerExecAttach execID check] \<and> stdin_terminal w' = stdin_terminal w"
  by (auto simp: cli_ContainerExecAttach_def emit_def dest!: next_fault_frame
      split: prod.splits option.splits if_splits)

lemma cli_ContainerExecInspect_frame:
  "cli_ContainerExecInspect execID w = (r, w') \<Longrightarrow>
   trace w' = trace w @ [CliContainerExecInspect execID]"
  by (auto simp: cli_ContainerExecInspect_def emit_def dest!: next_fault_frame
      split: prod.splits option.splits if_splits)

lemma cli_ContainerExecResize_frame:
  "cli_ContainerExecResize execID h wd w = (r, w') \<Longrightarrow>
   trace w' = trace w @ [CliContainerExecResize execID h wd]"
  by (auto simp: cli_ContainerExecResize_def emit_def dest!: next_fault_frame
      split: prod.splits option.splits if_splits)

lemma term_IsTerminal_frame:
  "term_IsTerminal w = (r, w') \<Longrightarrow> r = stdin_terminal w \<and> trace w' = trace w @ [TermIsTerminal]"
  by (auto simp: term_IsTerminal_def emit_def)

lemma term_MakeRaw_frame:
  "term_MakeRaw w = (r, w') \<Longrightarrow> trace w' = trace w @ [TermMakeRaw]"
  by (auto simp: term_MakeRaw_def emit_def dest!: next_fault_frame split: prod.splits option.splits)

lemma term_GetWinsize_frame:
  "term_GetWinsize w = (r, w') \<Longrightarrow> trace w' = trace w @ [TermGetWinsize]"
  by (auto simp: term_GetWinsize_def emit_def dest!: next_fault_frame split: prod.splits option.splits)

lemma io_Copy_stdout_frame:
  "io_Copy_stdout conn w = (r, w') \<Longrightarrow> trace w' = trace w @ [CopyStdout conn]"
  by (auto simp: io_Copy_stdout_def emit_def split: option.splits)

lemma trace_simps [simp]:
  "trace (hijack_Close conn w) = trace w @ [HijackClose conn]"
  "trace (go_resizeIfChanged execID w) = trace w @ [GoResizeIfChanged execID]"
  "trace (go_io_Copy_stdin conn w) = trace w @ [GoCopyStdin conn]"
  "trace (term_RestoreTerminal w) = trace w @ [TermRestoreTerminal]"
  "trace (emit e w) = trace w @ [e]"
  by (simp_all add: hijack_Close_def go_resizeIfChanged_def go_io_Copy_stdin_def
      term_RestoreTerminal_def emit_def)

lemma ContainerNetwork_frame:
  "ContainerNetwork name want w = (r, w') \<Longrightarrow>
   stdin_terminal w' = stdin_terminal w \<and> execs w' = execs w \<and> run w' = run w \<and>
   (trace w' = trace w @ [CliContainerInspect name]
    \<or> want \<and> trace w' = trace w @ [CliContainerInspect name, CliNetworkConnect ''bridge'' name]
    \<or> \<not> want \<and> trace w' = trace w @ [CliContainerInspect name, CliNetworkDisconnect ''bridge'' name])"
  by (auto simp: ContainerNetwork_def Let_def
      dest!: cli_ContainerInspect_frame cli_NetworkConnect_frame cli_NetworkDisconnect_frame
      split: prod.splits sum.splits if_splits)

lemma ContainerExecResize_frame:
  "ContainerExecResize execID w = (r, w') \<Longrightarrow>
   trace w' = trace w @ [TermGetWinsize]
   \<or> (\<exists>h wd. trace w' = trace w @ [TermGetWinsize, CliContainerExecResize execID h wd])"
  by (auto simp: ContainerExecResize_def 
      dest!: term_GetWinsize_frame cli_ContainerExecResize_frame
      split: prod.splits sum.splits option.splits)

lemma ContainerExec_wait_frame:
  "ContainerExec_wait args response hijack w = (r, w') \<Longrightarrow>
   r = Blocks \<and> trace w' = trace w @ [CopyStdout hijack]
   \<or> Interactive args \<and> r = Returns None \<and> trace w' = trace w @ [CopyStdout hijack, HijackClose hijack]
   \<or> \<not> Interactive args \<and> (\<exists>x. r = Returns x) \<and>
      trace w' = trace w @ [CopyStdout hijack, HijackClose hijack, CliContainerExecInspect response]"
  by (auto simp: ContainerExec_wait_def Let_def
      dest!: io_Copy_stdout_frame cli_ContainerExecInspect_frame
      split: prod.splits sum.splits bool.splits if_splits)

lemma ContainerExec_frame:
  assumes "ContainerExec args w = (r, w')"
  shows "\<exists>evs. trace w' = trace w @ evs \<and> list_all (exec_event args (stdin_terminal w)) evs"
proof (cases "Skip args")
  case True
  with assms show ?thesis by (simp add: ContainerExec_def)
next
  case False
  with assms show ?thesis
    apply (simp add: ContainerExec_def Let_def split: prod.splits option.splits sum.splits if_splits bool.splits)
    apply (auto simp: deferred_def dest!: ContainerNetwork_frame cli_ContainerExecCreate_frame
       cli_ContainerExecAttach_frame term_IsTerminal_frame term_MakeRaw_frame
       ContainerExecResize_frame ContainerExec_wait_frame split: prod.splits go.splits)
    done
qed

lemma IsContainerStopped_frame:
  "IsContainerStopped n w = (r, w') \<Longrightarrow> trace w' = trace w @ [CliContainerList]"
  by (auto simp: IsContainerStopped_def dest!: cli_ContainerList_frame
      split: prod.splits sum.splits option.splits)

lemma ContainerStop_frame:
  "ContainerStop n w = (r, w') \<Longrightarrow> trace w' = trace w @ [CliContainerStop n ContainerStopTimeout]"
  by (auto simp: ContainerStop_def dest!: cli_ContainerStop_frame)

section \<open>The calls of one exec invocation\<close>

lemma ContainerExec_emitted:
  "ContainerExec args w = (r, w') \<Longrightarrow> e \<in> set (emitted w w') \<Longrightarrow>
   exec_event args (stdin_terminal w) e"
  by (auto dest!: ContainerExec_frame simp: emitted_def list_all_iff)

lemma exec_config_Cmd:
  "ExecCmd (exec_config args) = (if Cmd args = '''' then [''bash''] else [''bash'', ''-c'', Cmd args])"
  by (simp add: exec_config_def Let_def)

lemma exec_config_User:
  "User (exec_config args) = (if AsRoot args then ''root'' else '''')"
  by (simp add: exec_config_def Let_def)

lemma ContainerExec_after_network:
  assumes "\<not> Skip args" and "ContainerNetwork (Name args) (Network args) w = (nr, w1)"
    and "ContainerExec args w = (r, w')"
  shows "(nr \<noteq> None \<longrightarrow> r = Returns nr \<and> w' = w1)
    \<and> (nr = None \<longrightarrow>
         (\<exists>rest. trace w' = trace w1 @ CliContainerExecCreate (Name args) (exec_config args) # rest))"
  using assms
  apply (simp add: ContainerExec_def Let_def split: prod.splits option.splits sum.splits if_splits bool.splits)
    apply (auto simp: deferred_def dest!: cli_ContainerExecCreate_frame
       cli_ContainerExecAttach_frame term_IsTerminal_frame term_MakeRaw_frame
       ContainerExecResize_frame ContainerExec_wait_frame split: prod.splits go.splits)
  done

lemma cli_ContainerInspect_error:
  "cli_ContainerInspect name w = (Inl e, w') \<Longrightarrow> e \<noteq> errors_New m"
  by (auto simp: cli_ContainerInspect_def no_such_container_def split: prod.splits option.splits)

lemma cli_NetworkConnect_error:
  "cli_NetworkConnect network name w = (Some e, w') \<Longrightarrow> e \<noteq> errors_New m"
  by (auto simp: cli_NetworkConnect_def no_such_container_def split: prod.splits option.splits)

lemma cli_NetworkDisconnect_error:
  "cli_NetworkDisconnect network name w = (Some e, w') \<Longrightarrow> e \<noteq> errors_New m"
  by (auto simp: cli_NetworkDisconnect_def no_such_container_def split: prod.splits option.splits)

lemma ContainerNetwork_error:
  "ContainerNetwork name want w = (Some e, w') \<Longrightarrow> e \<noteq> errors_New m"
  by (auto simp: ContainerNetwork_def Let_def
      dest: cli_ContainerInspect_error cli_NetworkConnect_error cli_NetworkDisconnect_error
      split: prod.splits sum.splits if_splits)

lemma cli_ContainerExecCreate_error:
  "cli_ContainerExecCreate name config w = (Inl e, w') \<Longrightarrow> e \<noteq> errors_New m"
  by (auto simp: cli_ContainerExecCreate_def no_such_container_def
      split: prod.splits option.splits if_splits)

lemma cli_ContainerExecAttach_error:
  "cli_ContainerExecAttach execID check w = (Inl e, w') \<Longrightarrow> e \<noteq> errors_New m"
  by (auto simp: cli_ContainerExecAttach_def no_such_exec_def
      split: prod.splits option.splits if_splits)

lemma term_MakeRaw_error:
  "term_MakeRaw w = (Inl e, w') \<Longrightarrow> e \<noteq> errors_New m"
  by (auto simp: term_MakeRaw_def split: prod.splits option.splits)

lemma ContainerExecResize_error:
  "ContainerExecResize execID w = (Some e, w') \<Longrightarrow> e \<noteq> errors_New m"
  by (auto simp: ContainerExecResize_def term_GetWinsize_def cli_ContainerExecResize_def
      no_such_exec_def split: prod.splits option.splits sum.splits if_splits)

lemma ContainerExec_interactive_error:
  assumes "Interactive args" and "ContainerExec args w = (Returns (Some e), w')"
  shows "e \<noteq> errors_New m"
  using assms
  apply (simp add: ContainerExec_def Let_def split: prod.splits option.splits sum.splits if_splits bool.splits)
  apply (auto simp: deferred_def dest: ContainerNetwork_error cli_ContainerExecCreate_error
       cli_ContainerExecAttach_error term_MakeRaw_error
       ContainerExecResize_error dest!: ContainerExec_wait_frame split: prod.splits go.splits)
  done

section \<open>The daemon after a network toggle\<close>




lemma find_container_emit [simp]: "find_container name (emit e w) = find_container name w"
  by (simp add: find_container_def emit_def)









section \<open>Running the code in the example world\<close>

text \<open>
  The definitions that the simplifier unfolds to run the calls of the Docker client, of
  the host and of the steps on a concrete world.
\<close>

lemma example_args_simps [simp]:
  "Name (example_args i c) = ''deber''"
  "Network (example_args i c) = False"
  "Skip (example_args i c) = False"
  "Interactive (example_args i c) = i"
  "Cmd (example_args i c) = c"
  "AsRoot (example_args i c) = False"
  by (simp_all add: example_args_def)

lemmas eval_defs = ContainerNetwork_def cli_ContainerInspect_def cli_NetworkConnect_def
  cli_NetworkDisconnect_def next_fault_def emit_def find_container_def has_name_def
  update_container_def emitted_def example_world_def Let_def example_args_def
  example_naming_def ContainerStateRunning_def ContainerStateExited_def

section \<open>Exec Channel: the skip flag\<close>

text \<open>
  C5.  For every exec invocation with the \<^verbatim>\<open>Skip\<close> flag set, \<^verbatim>\<open>ContainerExec\<close> returns
  success (\<^verbatim>\<open>nil\<close>) at once and leaves the world as it was: no call to the daemon and
  no input or output, so no network toggle, no exec creation, no attach and no inspection
  of an exit code.
\<close>

theorem skip_returns_at_once:
  "Skip args \<Longrightarrow>
   ContainerExec args w = (Returns None, w) \<and> emitted w (snd (ContainerExec args w)) = []"
  by (simp add: ContainerExec_def emitted_def)

theorem skip_returns_at_once_witness:
  "ContainerExec ((example_args False ''apt-get update'')\<lparr>Skip := True\<rparr>) example_world =
     (Returns None, example_world)
   \<and> emitted example_world
       (snd (ContainerExec ((example_args False ''apt-get update'')\<lparr>Skip := True\<rparr>)
          example_world)) = []"
proof -
  have "Skip ((example_args False ''apt-get update'')\<lparr>Skip := True\<rparr>)"
    by simp
  from skip_returns_at_once [OF this, of example_world] show ?thesis .
qed

section \<open>The archive-check step\<close>

lemma Check_present:
  "stat w (ArchivePackageDir name) = Inr info \<Longrightarrow>
   Check name w =
     (Exits 0, w\<lparr>trace := trace w @ [Log ''Checking archive'', OsStat (ArchivePackageDir name),
                                   Log ''skipped'', OsExit 0]\<rparr>)"
  by (simp add: Check_def os_Stat_def os_Exit_def log_Info_def log_Skip_def emit_def)

lemma Check_absent:
  "stat w (ArchivePackageDir name) = Inl e \<Longrightarrow>
   Check name w =
     (Returns Done, w\<lparr>trace := trace w @ [Log ''Checking archive'',
                                        OsStat (ArchivePackageDir name), Log ''done'']\<rparr>)"
  by (simp add: Check_def os_Stat_def os_Exit_def log_Info_def log_DoneE_def emit_def)

text \<open>
  C3.  For every invocation of the archive-check step: if \<^verbatim>\<open>os.Stat\<close> finds the
  artifact path, the step terminates the whole process with exit code 0, and whatever
  follows the step in its caller (any later step) is not executed; otherwise the step
  returns Done, the process does not exit, and the caller continues.
\<close>

theorem check_exits_when_archived:
  "(stat w (ArchivePackageDir name) = Inr info \<longrightarrow>
      fst (Check name w) = Exits 0
      \<and> and_then (Check name w) k = (Exits 0, snd (Check name w))
      \<and> emitted w (snd (Check name w)) =
          [Log ''Checking archive'', OsStat (ArchivePackageDir name), Log ''skipped'', OsExit 0])
   \<and> (stat w (ArchivePackageDir name) = Inl e \<longrightarrow>
      fst (Check name w) = Returns Done
      \<and> and_then (Check name w) k = k Done (snd (Check name w))
      \<and> (\<forall>code. OsExit code \<notin> set (emitted w (snd (Check name w)))))"
  by (auto simp: Check_present Check_absent and_then_def emitted_def)

theorem check_exits_when_archived_witness:
  "fst (Check (example_naming ''deber'' ''/archive/hello_1.0'') example_world) = Exits 0
   \<and> and_then (Check (example_naming ''deber'' ''/archive/hello_1.0'') example_world)
        (\<lambda>out. Check (example_naming ''deber'' ''/archive/hello_1.0'')) =
      (Exits 0, snd (Check (example_naming ''deber'' ''/archive/hello_1.0'') example_world))
   \<and> emitted example_world
        (snd (Check (example_naming ''deber'' ''/archive/hello_1.0'') example_world)) =
      [Log ''Checking archive'', OsStat ''/archive/hello_1.0'', Log ''skipped'', OsExit 0]
   \<and> fst (Check (example_naming ''deber'' ''/archive/hello_2.0'') example_world) = Returns Done
   \<and> and_then (Check (example_naming ''deber'' ''/archive/hello_2.0'') example_world)
        (\<lambda>out. Check (example_naming ''deber'' ''/archive/hello_1.0'')) =
      Check (example_naming ''deber'' ''/archive/hello_1.0'')
        (snd (Check (example_naming ''deber'' ''/archive/hello_2.0'') example_world))"
proof -
  let ?built = "example_naming ''deber'' ''/archive/hello_1.0''"
  let ?fresh = "example_naming ''deber'' ''/archive/hello_2.0''"
  have p: "stat example_world (ArchivePackageDir ?built) = Inr \<lparr>IsDir = True\<rparr>"
    by (simp add: example_world_def example_naming_def)
  have a: "stat example_world (ArchivePackageDir ?fresh) = Inl ENOENT"
    by (simp add: example_world_def example_naming_def)
  have d: "ArchivePackageDir ?built = ''/archive/hello_1.0''"
    by (simp add: example_naming_def)
  from check_exits_when_archived
    [of example_world ?built "\<lparr>IsDir = True\<rparr>" "\<lambda>out. Check ?built" ENOENT] p
  have 1: "fst (Check ?built example_world) = Exits 0
      \<and> and_then (Check ?built example_world) (\<lambda>out. Check ?built) =
          (Exits 0, snd (Check ?built example_world))
      \<and> emitted example_world (snd (Check ?built example_world)) =
          [Log ''Checking archive'', OsStat (ArchivePackageDir ?built), Log ''skipped'', OsExit 0]"
    by blast
  from check_exits_when_archived
    [of example_world ?fresh "\<lparr>IsDir = True\<rparr>" "\<lambda>out. Check ?built" ENOENT] a
  have 2: "fst (Check ?fresh example_world) = Returns Done
      \<and> and_then (Check ?fresh example_world) (\<lambda>out. Check ?built) =
          Check ?built (snd (Check ?fresh example_world))"
    by blast
  from 1 2 show ?thesis
    unfolding d by blast
qed

text \<open>
  C9.  In the archive-check step every error of \<^verbatim>\<open>os.Stat\<close> on the artifact path is
  discarded and taken as "artifact not present": for every stat outcome without file
  info, a permission or I/O error as much as non-existence, the step returns Done and
  reports no failure.
\<close>

theorem check_discards_stat_error:
  "stat w (ArchivePackageDir name) = Inl e \<Longrightarrow>
   fst (os_Stat (ArchivePackageDir name) (log_Info ''Checking archive'' w)) =
     (None, Some (PathError e))
   \<and> fst (Check name w) = Returns Done
   \<and> emitted w (snd (Check name w)) =
       [Log ''Checking archive'', OsStat (ArchivePackageDir name), Log ''done'']"
  by (simp add: Check_absent emitted_def os_Stat_def log_Info_def emit_def)

theorem check_discards_stat_error_witness:
  "fst (os_Stat ''/archive/locked'' (log_Info ''Checking archive'' example_world)) =
     (None, Some (PathError EACCES))
   \<and> fst (Check (example_naming ''deber'' ''/archive/locked'') example_world) = Returns Done
   \<and> emitted example_world
       (snd (Check (example_naming ''deber'' ''/archive/locked'') example_world)) =
       [Log ''Checking archive'', OsStat ''/archive/locked'', Log ''done'']"
proof -
  let ?locked = "example_naming ''deber'' ''/archive/locked''"
  have d: "ArchivePackageDir ?locked = ''/archive/locked''"
    by (simp add: example_naming_def)
  have "stat example_world (ArchivePackageDir ?locked) = Inl EACCES"
    by (simp add: example_world_def example_naming_def)
  from check_discards_stat_error [OF this] show ?thesis
    unfolding d .
qed

section \<open>Exec Channel: network posture, argument vector, exit code\<close>



text \<open>
  C8.  For every exec invocation that runs, the argument vector handed to the daemon is
  the shell wrapper: the bare shell \<^verbatim>\<open>["bash"]\<close> for an empty command string, and
  \<^verbatim>\<open>["bash", "-c", c]\<close> for a non-empty command string \<open>c\<close>; the exec user is
  \<^verbatim>\<open>"root"\<close> when \<^verbatim>\<open>AsRoot\<close> is set and is left empty otherwise.  An invocation
  that is not skipped and whose network toggle succeeds does create the exec.
\<close>

theorem exec_argument_vector:
  assumes "ContainerExec args w = (r, w')"
  shows "(\<forall>name config. CliContainerExecCreate name config \<in> set (emitted w w') \<longrightarrow>
            name = Name args
            \<and> ExecCmd config = (if Cmd args = '''' then [''bash''] else [''bash'', ''-c'', Cmd args])
            \<and> User config = (if AsRoot args then ''root'' else ''''))
    \<and> (\<not> Skip args \<and> fst (ContainerNetwork (Name args) (Network args) w) = None \<longrightarrow>
          CliContainerExecCreate (Name args) (exec_config args) \<in> set (emitted w w'))"
proof (intro conjI allI impI)
  fix name config
  assume "CliContainerExecCreate name config \<in> set (emitted w w')"
  from ContainerExec_emitted [OF assms this]
  have *: "name = Name args" "config = exec_config args" by simp_all
  show "name = Name args" by (rule *)
  show "ExecCmd config = (if Cmd args = '''' then [''bash''] else [''bash'', ''-c'', Cmd args])"
    unfolding * by (rule exec_config_Cmd)
  show "User config = (if AsRoot args then ''root'' else '''')"
    unfolding * by (rule exec_config_User)
next
  assume a: "\<not> Skip args \<and> fst (ContainerNetwork (Name args) (Network args) w) = None"
  obtain w1 where n: "ContainerNetwork (Name args) (Network args) w = (None, w1)"
    using a by (cases "ContainerNetwork (Name args) (Network args) w") auto
  from ContainerExec_after_network [OF _ n assms] a
  obtain rest where r: "trace w' = trace w1 @ CliContainerExecCreate (Name args) (exec_config args) # rest"
    by auto
  from ContainerNetwork_frame [OF n] obtain evs where "trace w1 = trace w @ evs"
    by auto
  with r show "CliContainerExecCreate (Name args) (exec_config args) \<in> set (emitted w w')"
    by (simp add: emitted_def)
qed

theorem exec_argument_vector_witness:
  "CliContainerExecCreate ''deber'' (exec_config (example_args False ''false''))
     \<in> set (emitted example_world (snd (ContainerExec (example_args False ''false'') example_world)))
   \<and> ExecCmd (exec_config (example_args False ''false'')) = [''bash'', ''-c'', ''false'']
   \<and> User (exec_config (example_args False ''false'')) = ''''
   \<and> CliContainerExecCreate ''deber'' (exec_config ((example_args True '''')\<lparr>AsRoot := True\<rparr>))
     \<in> set (emitted example_world
          (snd (ContainerExec ((example_args True '''')\<lparr>AsRoot := True\<rparr>) example_world)))
   \<and> ExecCmd (exec_config ((example_args True '''')\<lparr>AsRoot := True\<rparr>)) = [''bash'']
   \<and> User (exec_config ((example_args True '''')\<lparr>AsRoot := True\<rparr>)) = ''root''"
proof -
  let ?a = "example_args False ''false''"
  let ?b = "(example_args True '''')\<lparr>AsRoot := True\<rparr>"
  have ea: "ContainerExec ?a example_world =
      (fst (ContainerExec ?a example_world), snd (ContainerExec ?a example_world))"
    by simp
  have eb: "ContainerExec ?b example_world =
      (fst (ContainerExec ?b example_world), snd (ContainerExec ?b example_world))"
    by simp
  have na: "\<not> Skip ?a \<and> fst (ContainerNetwork (Name ?a) (Network ?a) example_world) = None"
    by (simp add: eval_defs)
  have nb: "\<not> Skip ?b \<and> fst (ContainerNetwork (Name ?b) (Network ?b) example_world) = None"
    by (simp add: eval_defs)
  note ta = exec_argument_vector [OF ea]
  note tb = exec_argument_vector [OF eb]
  from ta na have ma: "CliContainerExecCreate (Name ?a) (exec_config ?a)
      \<in> set (emitted example_world (snd (ContainerExec ?a example_world)))"
    by blast
  from tb nb have mb: "CliContainerExecCreate (Name ?b) (exec_config ?b)
      \<in> set (emitted example_world (snd (ContainerExec ?b example_world)))"
    by blast
  from ta ma have ca: "ExecCmd (exec_config ?a) =
        (if Cmd ?a = '''' then [''bash''] else [''bash'', ''-c'', Cmd ?a])
      \<and> User (exec_config ?a) = (if AsRoot ?a then ''root'' else '''')"
    by blast
  from tb mb have cb: "ExecCmd (exec_config ?b) =
        (if Cmd ?b = '''' then [''bash''] else [''bash'', ''-c'', Cmd ?b])
      \<and> User (exec_config ?b) = (if AsRoot ?b then ''root'' else '''')"
    by blast
  from ma ca have "CliContainerExecCreate ''deber'' (exec_config ?a)
        \<in> set (emitted example_world (snd (ContainerExec ?a example_world)))
      \<and> ExecCmd (exec_config ?a) = [''bash'', ''-c'', ''false'']
      \<and> User (exec_config ?a) = ''''"
    by simp
  moreover from mb cb have "CliContainerExecCreate ''deber'' (exec_config ?b)
        \<in> set (emitted example_world (snd (ContainerExec ?b example_world)))
      \<and> ExecCmd (exec_config ?b) = [''bash'']
      \<and> User (exec_config ?b) = ''root''"
    by simp
  ultimately show ?thesis by blast
qed

text \<open>
  C2.  For every batch (non-interactive) exec invocation that runs a command, after the
  output copy completes the exit code of the exec is inspected, as the next call to the
  daemon: \<^verbatim>\<open>ContainerExec\<close> returns success (\<^verbatim>\<open>nil\<close>) when the inspected exit code
  is 0 and the command-failure error when it is not 0 (and the daemon's error when the
  inspection itself fails).  For every interactive invocation the exit code is never
  inspected and no command-failure error is produced.
\<close>

theorem exit_code_inspected_in_batch_only:
  "(\<not> Skip args \<and> \<not> Interactive args
     \<and> ContainerNetwork (Name args) (Network args) w = (None, w1)
     \<and> cli_ContainerExecCreate (Name args) (exec_config args) w1 = (Inr response, w2)
     \<and> cli_ContainerExecAttach response exec_check w2 = (Inr hijack, w3)
     \<and> io_Copy_stdout hijack w3 = (True, w4)
     \<and> cli_ContainerExecInspect response (hijack_Close hijack w4) = (ir, w5)
    \<longrightarrow> ContainerExec args w =
          (Returns (case ir of
                      Inl err \<Rightarrow> Some err
                    | Inr code \<Rightarrow>
                        if code = 0 then None
                        else Some (errors_New ''command exited with non-zero status'')), w5)
        \<and> emitted w3 w5 = [CopyStdout hijack, HijackClose hijack, CliContainerExecInspect response])
   \<and> (Interactive args \<and> ContainerExec args w = (r, w')
    \<longrightarrow> (\<forall>execID. CliContainerExecInspect execID \<notin> set (emitted w w'))
        \<and> (\<forall>msg. r \<noteq> Returns (Some (errors_New msg))))"
proof (intro conjI impI; (elim conjE)?)
  assume a: "\<not> Skip args" "\<not> Interactive args"
    "ContainerNetwork (Name args) (Network args) w = (None, w1)"
    "cli_ContainerExecCreate (Name args) (exec_config args) w1 = (Inr response, w2)"
    "cli_ContainerExecAttach response exec_check w2 = (Inr hijack, w3)"
    "io_Copy_stdout hijack w3 = (True, w4)"
    "cli_ContainerExecInspect response (hijack_Close hijack w4) = (ir, w5)"
  show "ContainerExec args w =
          (Returns (case ir of
                      Inl err \<Rightarrow> Some err
                    | Inr code \<Rightarrow>
                        if code = 0 then None
                        else Some (errors_New ''command exited with non-zero status'')), w5)"
    using a by (simp add: ContainerExec_def ContainerExec_wait_def Let_def split: sum.splits)
  from io_Copy_stdout_frame [OF a(6)] cli_ContainerExecInspect_frame [OF a(7)]
  show "emitted w3 w5 = [CopyStdout hijack, HijackClose hijack, CliContainerExecInspect response]"
    by (simp add: emitted_def)
next
  assume a: "Interactive args" "ContainerExec args w = (r, w')"
  show "\<forall>execID. CliContainerExecInspect execID \<notin> set (emitted w w')"
    using ContainerExec_emitted [OF a(2)] a(1) by fastforce
  show "\<forall>msg. r \<noteq> Returns (Some (errors_New msg))"
    using ContainerExec_interactive_error [OF a(1)] a(2) by blast
qed

theorem exit_code_inspected_in_batch_only_witness:
  "fst (ContainerExec (example_args False ''false'') example_world) =
     Returns (Some (errors_New ''command exited with non-zero status''))
   \<and> fst (ContainerExec (example_args False ''dpkg-buildpackage'') example_world) = Returns None
   \<and> (\<forall>execID. CliContainerExecInspect execID \<notin>
        set (emitted example_world (snd (ContainerExec (example_args True ''false'') example_world))))
   \<and> (\<forall>msg. fst (ContainerExec (example_args True ''false'') example_world) \<noteq>
        Returns (Some (errors_New msg)))"
proof -
  have batch: "fst (ContainerExec (example_args False cmd) example_world) =
      Returns (if code = 0 then None else Some (errors_New ''command exited with non-zero status''))"
    if c: "run example_world ''deber'' (exec_config (example_args False cmd)) = Some code"
    for cmd code
  proof -
    let ?a = "example_args False cmd"
    let ?w1 = "snd (ContainerNetwork (Name ?a) (Network ?a) example_world)"
    let ?w2 = "snd (cli_ContainerExecCreate (Name ?a) (exec_config ?a) ?w1)"
    let ?w3 = "snd (cli_ContainerExecAttach 0 exec_check ?w2)"
    let ?w4 = "snd (io_Copy_stdout 0 ?w3)"
    let ?w5 = "snd (cli_ContainerExecInspect 0 (hijack_Close 0 ?w4))"
    have r: "run example_world = run example_world" ..
    have 0: "\<not> Skip ?a \<and> \<not> Interactive ?a" by simp
    have 1: "ContainerNetwork (Name ?a) (Network ?a) example_world = (None, ?w1)"
      by (simp add: eval_defs)
    have x1: "execs ?w1 = [] \<and> faults ?w1 = [] \<and> run ?w1 = run example_world
        \<and> find_container ''deber'' ?w1 =
            Some \<lparr>ID = ''2b'', Names = [''/deber''], State = ''running'', Networks = []\<rparr>"
      by (simp add: eval_defs)
    have 2: "cli_ContainerExecCreate (Name ?a) (exec_config ?a) ?w1 = (Inr 0, ?w2)"
      using x1 by (simp add: cli_ContainerExecCreate_def next_fault_def emit_def
          ContainerStateRunning_def find_container_def)
    have x2: "execs ?w2 = [(''deber'', exec_config ?a)] \<and> faults ?w2 = []
        \<and> run ?w2 = run example_world"
      using x1 by (simp add: cli_ContainerExecCreate_def next_fault_def emit_def
          ContainerStateRunning_def find_container_def)
    have 3: "cli_ContainerExecAttach 0 exec_check ?w2 = (Inr 0, ?w3)"
      using x2 by (simp add: cli_ContainerExecAttach_def next_fault_def emit_def)
    have x3: "execs ?w3 = [(''deber'', exec_config ?a)] \<and> faults ?w3 = []
        \<and> run ?w3 = run example_world"
      using x2 by (simp add: cli_ContainerExecAttach_def next_fault_def emit_def)
    have 4: "io_Copy_stdout 0 ?w3 = (True, ?w4)"
      using x3 c by (simp add: io_Copy_stdout_def exec_exit_def)
    have x4: "execs ?w4 = [(''deber'', exec_config ?a)] \<and> faults ?w4 = []
        \<and> run ?w4 = run example_world"
      using x3 c by (simp add: io_Copy_stdout_def exec_exit_def emit_def)
    have 5: "cli_ContainerExecInspect 0 (hijack_Close 0 ?w4) = (Inr code, ?w5)"
      using x4 c by (simp add: cli_ContainerExecInspect_def hijack_Close_def next_fault_def
          emit_def exec_exit_def)
    from exit_code_inspected_in_batch_only
      [of ?a example_world ?w1 0 ?w2 0 ?w3 ?w4 "Inr code" ?w5] 0 1 2 3 4 5
    have "ContainerExec ?a example_world =
        (Returns (case Inr code of
                    Inl err \<Rightarrow> Some err
                  | Inr code \<Rightarrow>
                      if code = 0 then None
                      else Some (errors_New ''command exited with non-zero status'')), ?w5)"
      by blast
    then show ?thesis by simp
  qed
  have f: "run example_world ''deber'' (exec_config (example_args False ''false'')) = Some 1"
    by (simp add: example_world_def exec_config_def example_args_def)
  have t: "run example_world ''deber'' (exec_config (example_args False ''dpkg-buildpackage'')) = Some 0"
    by (simp add: example_world_def exec_config_def example_args_def)
  let ?i = "example_args True ''false''"
  have i: "Interactive ?i \<and> ContainerExec ?i example_world =
      (fst (ContainerExec ?i example_world), snd (ContainerExec ?i example_world))"
    by simp
  from exit_code_inspected_in_batch_only
    [of ?i example_world _ _ _ _ _ _ _ _ "fst (ContainerExec ?i example_world)"
      "snd (ContainerExec ?i example_world)"] i
  have "(\<forall>execID. CliContainerExecInspect execID \<notin>
        set (emitted example_world (snd (ContainerExec ?i example_world))))
      \<and> (\<forall>msg. fst (ContainerExec ?i example_world) \<noteq> Returns (Some (errors_New msg)))"
    by blast
  with batch [OF f] batch [OF t] show ?thesis by simp
qed

text \<open>
  C10.  For every interactive exec invocation on a host whose standard input is not a
  terminal, the session degrades to the output copy of batch mode: no raw mode, no window
  size query, no resize, no resize watcher and no forwarding of standard input; and the
  exit code is still never inspected, so that once the exec is attached
  \<^verbatim>\<open>ContainerExec\<close> returns success (\<^verbatim>\<open>nil\<close>) whatever code the command exits with,
  a non-zero code included.
\<close>

theorem interactive_without_terminal:
  "(Interactive args \<and> \<not> Skip args \<and> \<not> stdin_terminal w \<and> ContainerExec args w = (r, w')
    \<longrightarrow> TermMakeRaw \<notin> set (emitted w w')
        \<and> TermGetWinsize \<notin> set (emitted w w')
        \<and> (\<forall>execID height width. CliContainerExecResize execID height width \<notin> set (emitted w w'))
        \<and> (\<forall>execID. GoResizeIfChanged execID \<notin> set (emitted w w'))
        \<and> (\<forall>conn. GoCopyStdin conn \<notin> set (emitted w w'))
        \<and> (\<forall>execID. CliContainerExecInspect execID \<notin> set (emitted w w')))
   \<and> (Interactive args \<and> \<not> Skip args \<and> \<not> stdin_terminal w
       \<and> ContainerNetwork (Name args) (Network args) w = (None, w1)
       \<and> cli_ContainerExecCreate (Name args) (exec_config args) w1 = (Inr response, w2)
       \<and> cli_ContainerExecAttach response exec_check w2 = (Inr hijack, w3)
       \<and> exec_exit w3 hijack = Some (Some code)
    \<longrightarrow> fst (ContainerExec args w) = Returns None
        \<and> emitted w3 (snd (ContainerExec args w)) =
            [TermIsTerminal, CopyStdout hijack, HijackClose hijack])"
proof (intro conjI impI allI; (elim conjE)?)
  assume a: "Interactive args" "\<not> Skip args" "\<not> stdin_terminal w"
    "ContainerNetwork (Name args) (Network args) w = (None, w1)"
    "cli_ContainerExecCreate (Name args) (exec_config args) w1 = (Inr response, w2)"
    "cli_ContainerExecAttach response exec_check w2 = (Inr hijack, w3)"
    "exec_exit w3 hijack = Some (Some code)"
  have tty: "\<not> stdin_terminal w3"
    using a(3) ContainerNetwork_frame [OF a(4)] cli_ContainerExecCreate_frame [OF a(5)]
      cli_ContainerExecAttach_frame [OF a(6)] by simp
  have ex: "exec_exit (emit TermIsTerminal w3) hijack = Some (Some code)"
    using a(7) by (simp add: exec_exit_def emit_def split: if_splits)
  have run: "ContainerExec args w =
      (Returns None, hijack_Close hijack (emit (CopyStdout hijack) (emit TermIsTerminal w3)))"
    using a(1,2,4,5,6) tty ex
    by (simp add: ContainerExec_def ContainerExec_wait_def Let_def term_IsTerminal_def
        io_Copy_stdout_def)
  show "fst (ContainerExec args w) = Returns None"
    by (simp add: run)
  show "emitted w3 (snd (ContainerExec args w)) =
      [TermIsTerminal, CopyStdout hijack, HijackClose hijack]"
    by (simp add: run emitted_def)
qed (auto dest: ContainerExec_emitted)

theorem interactive_without_terminal_witness:
  "run example_world ''deber'' (exec_config (example_args True ''false'')) = Some 1
   \<and> fst (ContainerExec (example_args True ''false'') example_world) = Returns None
   \<and> TermMakeRaw \<notin>
        set (emitted example_world (snd (ContainerExec (example_args True ''false'') example_world)))
   \<and> (\<forall>execID height width. CliContainerExecResize execID height width \<notin>
        set (emitted example_world (snd (ContainerExec (example_args True ''false'') example_world))))
   \<and> (\<forall>conn. GoCopyStdin conn \<notin>
        set (emitted example_world (snd (ContainerExec (example_args True ''false'') example_world))))
   \<and> (\<forall>execID. CliContainerExecInspect execID \<notin>
        set (emitted example_world (snd (ContainerExec (example_args True ''false'') example_world))))"
proof -
  let ?a = "example_args True ''false''"
  let ?w1 = "snd (ContainerNetwork (Name ?a) (Network ?a) example_world)"
  let ?w2 = "snd (cli_ContainerExecCreate (Name ?a) (exec_config ?a) ?w1)"
  let ?w3 = "snd (cli_ContainerExecAttach 0 exec_check ?w2)"
  have c: "run example_world ''deber'' (exec_config ?a) = Some 1"
    by (simp add: example_world_def exec_config_def example_args_def)
  have 0: "Interactive ?a \<and> \<not> Skip ?a \<and> \<not> stdin_terminal example_world"
    by (simp add: example_world_def)
  have e: "ContainerExec ?a example_world =
      (fst (ContainerExec ?a example_world), snd (ContainerExec ?a example_world))"
    by simp
  have 1: "ContainerNetwork (Name ?a) (Network ?a) example_world = (None, ?w1)"
    by (simp add: eval_defs)
  have x1: "execs ?w1 = [] \<and> faults ?w1 = [] \<and> run ?w1 = run example_world
      \<and> find_container ''deber'' ?w1 =
          Some \<lparr>ID = ''2b'', Names = [''/deber''], State = ''running'', Networks = []\<rparr>"
    by (simp add: eval_defs)
  have 2: "cli_ContainerExecCreate (Name ?a) (exec_config ?a) ?w1 = (Inr 0, ?w2)"
    using x1 by (simp add: cli_ContainerExecCreate_def next_fault_def emit_def
        ContainerStateRunning_def find_container_def)
  have x2: "execs ?w2 = [(''deber'', exec_config ?a)] \<and> faults ?w2 = []
      \<and> run ?w2 = run example_world"
    using x1 by (simp add: cli_ContainerExecCreate_def next_fault_def emit_def
        ContainerStateRunning_def find_container_def)
  have 3: "cli_ContainerExecAttach 0 exec_check ?w2 = (Inr 0, ?w3)"
    using x2 by (simp add: cli_ContainerExecAttach_def next_fault_def emit_def)
  have x3: "execs ?w3 = [(''deber'', exec_config ?a)] \<and> run ?w3 = run example_world"
    using x2 by (simp add: cli_ContainerExecAttach_def next_fault_def emit_def)
  have 4: "exec_exit ?w3 0 = Some (Some 1)"
    using x3 c by (simp add: exec_exit_def)
  note t = interactive_without_terminal
    [of ?a example_world "fst (ContainerExec ?a example_world)"
      "snd (ContainerExec ?a example_world)" ?w1 0 ?w2 0 ?w3 1]
  from t 0 1 2 3 4 have "fst (ContainerExec ?a example_world) = Returns None"
    by blast
  moreover from t 0 e have "TermMakeRaw \<notin>
        set (emitted example_world (snd (ContainerExec ?a example_world)))
      \<and> (\<forall>execID height width. CliContainerExecResize execID height width \<notin>
        set (emitted example_world (snd (ContainerExec ?a example_world))))
      \<and> (\<forall>conn. GoCopyStdin conn \<notin>
        set (emitted example_world (snd (ContainerExec ?a example_world))))
      \<and> (\<forall>execID. CliContainerExecInspect execID \<notin>
        set (emitted example_world (snd (ContainerExec ?a example_world))))"
    by blast
  ultimately show ?thesis using c by blast
qed

section \<open>The stop step\<close>

lemmas stop_eval_defs = IsContainerStopped_def cli_ContainerList_def ContainerStop_def
  cli_ContainerStop_def ContainerStopTimeout_def log_Info_def

text \<open>
  C7.  The stop step is idempotent through a state probe: for every invocation, if
  \<^verbatim>\<open>IsContainerStopped\<close> reports the container stopped (or absent), the step returns the
  Skipped outcome and makes no \<^verbatim>\<open>ContainerStop\<close> call; only when the probe reports it
  running does the step call \<^verbatim>\<open>ContainerStop\<close>, once, and return Done when the call
  succeeds and Failed with the daemon's error when it fails.  A probe that fails gives
  Failed as well.
\<close>

theorem stop_step_probes_first:
  "(IsContainerStopped (Container name) (log_Info ''Stopping container'' w) = (Inr True, w1)
    \<longrightarrow> fst (Stop name w) = Skipped
        \<and> emitted w (snd (Stop name w)) =
            [Log ''Stopping container'', CliContainerList, Log ''skipped'']
        \<and> (\<forall>n t. CliContainerStop n t \<notin> set (emitted w (snd (Stop name w)))))
   \<and> (IsContainerStopped (Container name) (log_Info ''Stopping container'' w) = (Inr False, w1)
       \<and> ContainerStop (Container name) w1 = (sr, w2)
    \<longrightarrow> fst (Stop name w) = (case sr of None \<Rightarrow> Done | Some err \<Rightarrow> Failed err)
        \<and> emitted w (snd (Stop name w)) =
            [Log ''Stopping container'', CliContainerList,
             CliContainerStop (Container name) ContainerStopTimeout,
             Log (if sr = None then ''done'' else ''failed'')])
   \<and> (IsContainerStopped (Container name) (log_Info ''Stopping container'' w) = (Inl err, w1)
    \<longrightarrow> fst (Stop name w) = Failed err
        \<and> emitted w (snd (Stop name w)) =
            [Log ''Stopping container'', CliContainerList, Log ''failed''])"
proof (intro conjI impI; (elim conjE)?)
  assume a: "IsContainerStopped (Container name) (log_Info ''Stopping container'' w) = (Inr True, w1)"
  have s: "Stop name w = (Skipped, emit (Log ''skipped'') w1)"
    using a by (simp add: Stop_def Let_def log_SkipE_def)
  have t: "trace w1 = trace w @ [Log ''Stopping container'', CliContainerList]"
    using IsContainerStopped_frame [OF a] by (simp add: log_Info_def)
  show "fst (Stop name w) = Skipped" by (simp add: s)
  show e: "emitted w (snd (Stop name w)) =
      [Log ''Stopping container'', CliContainerList, Log ''skipped'']"
    by (simp add: s t emitted_def)
  show "\<forall>n t. CliContainerStop n t \<notin> set (emitted w (snd (Stop name w)))"
    unfolding e by simp
next
  assume a: "IsContainerStopped (Container name) (log_Info ''Stopping container'' w) = (Inr False, w1)"
    and b: "ContainerStop (Container name) w1 = (sr, w2)"
  have s: "Stop name w = (case sr of None \<Rightarrow> log_DoneE w2 | Some err \<Rightarrow> log_FailE err w2)"
    using a b by (simp add: Stop_def Let_def split: option.splits)
  have t: "trace w2 = trace w @ [Log ''Stopping container'', CliContainerList,
      CliContainerStop (Container name) ContainerStopTimeout]"
    using IsContainerStopped_frame [OF a] ContainerStop_frame [OF b] by (simp add: log_Info_def)
  show "fst (Stop name w) = (case sr of None \<Rightarrow> Done | Some err \<Rightarrow> Failed err)"
    by (simp add: s log_DoneE_def log_FailE_def split: option.splits)
  show "emitted w (snd (Stop name w)) =
      [Log ''Stopping container'', CliContainerList,
       CliContainerStop (Container name) ContainerStopTimeout,
       Log (if sr = None then ''done'' else ''failed'')]"
    by (simp add: s t log_DoneE_def log_FailE_def emitted_def split: option.splits)
next
  assume a: "IsContainerStopped (Container name) (log_Info ''Stopping container'' w) = (Inl err, w1)"
  have s: "Stop name w = log_FailE err w1"
    using a by (simp add: Stop_def Let_def)
  have t: "trace w1 = trace w @ [Log ''Stopping container'', CliContainerList]"
    using IsContainerStopped_frame [OF a] by (simp add: log_Info_def)
  show "fst (Stop name w) = Failed err" by (simp add: s log_FailE_def)
  show "emitted w (snd (Stop name w)) =
      [Log ''Stopping container'', CliContainerList, Log ''failed'']"
    by (simp add: s t log_FailE_def emitted_def)
qed

theorem stop_step_probes_first_witness:
  "fst (Stop (example_naming ''deber_old'' ''/archive/hello_1.0'') example_world) = Skipped
   \<and> (\<forall>n t. CliContainerStop n t \<notin> set (emitted example_world
        (snd (Stop (example_naming ''deber_old'' ''/archive/hello_1.0'') example_world))))
   \<and> fst (Stop (example_naming ''ghost'' ''/archive/hello_1.0'') example_world) = Skipped
   \<and> fst (Stop (example_naming ''deber'' ''/archive/hello_1.0'') example_world) = Done
   \<and> emitted example_world (snd (Stop (example_naming ''deber'' ''/archive/hello_1.0'') example_world)) =
        [Log ''Stopping container'', CliContainerList, CliContainerStop ''deber'' 10, Log ''done'']
   \<and> fst (Stop (example_naming ''deber'' ''/archive/hello_1.0'')
        (example_world\<lparr>faults := [None, Some ''timeout'']\<rparr>)) = Failed (DaemonError ''timeout'')
   \<and> fst (Stop (example_naming ''deber'' ''/archive/hello_1.0'')
        (example_world\<lparr>faults := [Some ''daemon down'']\<rparr>)) = Failed (DaemonError ''daemon down'')"
proof -
  let ?old = "example_naming ''deber_old'' ''/archive/hello_1.0''"
  let ?ghost = "example_naming ''ghost'' ''/archive/hello_1.0''"
  let ?cur = "example_naming ''deber'' ''/archive/hello_1.0''"
  let ?flaky = "example_world\<lparr>faults := [None, Some ''timeout'']\<rparr>"
  let ?down = "example_world\<lparr>faults := [Some ''daemon down'']\<rparr>"
  let ?probe = "\<lambda>name w. IsContainerStopped (Container name) (log_Info ''Stopping container'' w)"
  have po: "?probe ?old example_world = (Inr True, snd (?probe ?old example_world))"
    by (simp add: stop_eval_defs eval_defs)
  have pg: "?probe ?ghost example_world = (Inr True, snd (?probe ?ghost example_world))"
    by (simp add: stop_eval_defs eval_defs)
  have pc: "?probe ?cur example_world = (Inr False, snd (?probe ?cur example_world))"
    by (simp add: stop_eval_defs eval_defs)
  have sc: "ContainerStop (Container ?cur) (snd (?probe ?cur example_world)) =
      (None, snd (ContainerStop (Container ?cur) (snd (?probe ?cur example_world))))"
    by (simp add: stop_eval_defs eval_defs)
  have pf: "?probe ?cur ?flaky = (Inr False, snd (?probe ?cur ?flaky))"
    by (simp add: stop_eval_defs eval_defs)
  have sf: "ContainerStop (Container ?cur) (snd (?probe ?cur ?flaky)) =
      (Some (DaemonError ''timeout''), snd (ContainerStop (Container ?cur) (snd (?probe ?cur ?flaky))))"
    by (simp add: stop_eval_defs eval_defs)
  have pd: "?probe ?cur ?down = (Inl (DaemonError ''daemon down''), snd (?probe ?cur ?down))"
    by (simp add: stop_eval_defs eval_defs)
  from stop_step_probes_first [of ?old example_world "snd (?probe ?old example_world)"] po
  have 1: "fst (Stop ?old example_world) = Skipped
      \<and> (\<forall>n t. CliContainerStop n t \<notin> set (emitted example_world (snd (Stop ?old example_world))))"
    by blast
  from stop_step_probes_first [of ?ghost example_world "snd (?probe ?ghost example_world)"] pg
  have 2: "fst (Stop ?ghost example_world) = Skipped"
    by blast
  from stop_step_probes_first [of ?cur example_world "snd (?probe ?cur example_world)" None
      "snd (ContainerStop (Container ?cur) (snd (?probe ?cur example_world)))"] pc sc
  have 3: "fst (Stop ?cur example_world) = (case None of None \<Rightarrow> Done | Some err \<Rightarrow> Failed err)
      \<and> emitted example_world (snd (Stop ?cur example_world)) =
          [Log ''Stopping container'', CliContainerList,
           CliContainerStop (Container ?cur) ContainerStopTimeout,
           Log (if (None :: error option) = None then ''done'' else ''failed'')]"
    by blast
  from stop_step_probes_first [of ?cur ?flaky "snd (?probe ?cur ?flaky)"
      "Some (DaemonError ''timeout'')"
      "snd (ContainerStop (Container ?cur) (snd (?probe ?cur ?flaky)))"] pf sf
  have 4: "fst (Stop ?cur ?flaky) =
      (case Some (DaemonError ''timeout'') of None \<Rightarrow> Done | Some err \<Rightarrow> Failed err)"
    by blast
  from stop_step_probes_first [of ?cur ?down "snd (?probe ?cur ?down)" _ _
      "DaemonError ''daemon down''"] pd
  have 5: "fst (Stop ?cur ?down) = Failed (DaemonError ''daemon down'')"
    by blast
  from 1 2 3 4 5 show ?thesis
    by (simp add: example_naming_def ContainerStopTimeout_def)
qed

section \<open>Network Toggle: idempotence\<close>




end
